theory Spec2Isabelle
  imports Main
begin

section \<open>Exceptions\<close>

text \<open>
  Every \<^verbatim>\<open>raise\<close> of the modelled modules, and every exception the Python runtime
  raises on their behalf, is a value of this type. A function that can raise returns
  \<open>error + 'a\<close>, with \<open>Inl\<close> for the exception.
  \<open>ContainsArrayAndGroupError\<close> is the class of \<^verbatim>\<open>zarr/errors.py\<close> for a store that
  holds both \<^verbatim>\<open>.zarray\<close> and \<^verbatim>\<open>.zgroup\<close> under one prefix.
\<close>

datatype error =
    TypeError
  | ValueError
  | KeyError
  | AttributeError
  | StopIteration
  | AssertionError
  | Exception_todo
  | ContainsArrayAndGroupError

definition bind :: "error + 'a \<Rightarrow> ('a \<Rightarrow> error + 'b) \<Rightarrow> error + 'b" where
  "bind m f = (case m of Inl e \<Rightarrow> Inl e | Inr x \<Rightarrow> f x)"

lemma bind_Inl [simp]: "bind (Inl e) f = Inl e"
  by (simp add: bind_def)

lemma bind_Inr [simp]: "bind (Inr x) f = f x"
  by (simp add: bind_def)

lemma bind_cong [fundef_cong]:
  "m = m' \<Longrightarrow> (\<And>x. m' = Inr x \<Longrightarrow> f x = f' x) \<Longrightarrow> bind m f = bind m' f'"
  by (cases m') (simp_all add: bind_def)

section \<open>Metadata document resolver (\<^verbatim>\<open>zarr/core/metadata/_io.py\<close>)\<close>

text \<open>
  Modelled from the spec: the four key-name constants are imported from
  \<^verbatim>\<open>zarr.core.common\<close>, which is not among the sources; the spec's section on external
  interfaces fixes their values.
\<close>

definition ZARR_JSON :: string where "ZARR_JSON = ''zarr.json''"
definition ZARRAY_JSON :: string where "ZARRAY_JSON = ''.zarray''"
definition ZGROUP_JSON :: string where "ZGROUP_JSON = ''.zgroup''"
definition ZATTRS_JSON :: string where "ZATTRS_JSON = ''.zattrs''"

text \<open>
  \<^verbatim>\<open>_build_paths(node_type, zarr_format)\<close>. The arguments are \<^verbatim>\<open>"array" | "group" | None\<close>
  and \<^verbatim>\<open>2 | 3 | None\<close>; the \<^verbatim>\<open>match\<close> statement compares them by equality, first case
  first, and the wildcard case raises \<^verbatim>\<open>ValueError\<close>. The local list \<^verbatim>\<open>paths\<close> starts
  empty and is extended once.
\<close>

definition build_paths :: "string option \<Rightarrow> int option \<Rightarrow> error + string list" where
  "build_paths node_type zarr_format =
     (if zarr_format = Some 3 then Inr [ZARR_JSON]
      else if node_type = Some ''array'' \<and> zarr_format = Some 2 then
        Inr [ZARRAY_JSON, ZATTRS_JSON]
      else if node_type = Some ''array'' \<and> zarr_format = None then
        Inr [ZARR_JSON, ZATTRS_JSON, ZARRAY_JSON]
      else if node_type = Some ''group'' \<and> zarr_format = Some 2 then
        Inr [ZGROUP_JSON, ZATTRS_JSON]
      else if node_type = Some ''group'' \<and> zarr_format = None then
        Inr [ZGROUP_JSON, ZATTRS_JSON, ZARR_JSON]
      else if node_type = None \<and> zarr_format = Some 2 then
        Inr [ZARRAY_JSON, ZATTRS_JSON, ZGROUP_JSON]
      else if node_type = None \<and> zarr_format = None then
        Inr [ZARRAY_JSON, ZATTRS_JSON, ZGROUP_JSON, ZARR_JSON]
      else Inl ValueError)"

text \<open>
  The store below a \<^verbatim>\<open>StorePath\<close>: \<^verbatim>\<open>(store_path / path).get()\<close> yields the bytes stored
  under the key, or \<^verbatim>\<open>None\<close>. The reads of \<^verbatim>\<open>asyncio.gather\<close> do not change the store
  and their results come back in the order of \<^verbatim>\<open>paths\<close>, so they are a \<open>map\<close>.
\<close>

type_synonym buffer = string
type_synonym store_path = "string \<Rightarrow> buffer option"

text \<open>
  \<^verbatim>\<open>_gather_documents(store_path, node_type, zarr_format)\<close>. After the reads the second
  \<^verbatim>\<open>match\<close> statement runs: with format 3 a missing \<^verbatim>\<open>zarr.json\<close> raises
  \<^verbatim>\<open>Exception("todo")\<close>; every other case extends the local list \<^verbatim>\<open>paths\<close> again and
  nothing else. The function has no \<^verbatim>\<open>return\<close> statement: it returns \<^verbatim>\<open>None\<close>, the
  unit value here. \<^verbatim>\<open>items[ZARR_JSON]\<close> raises \<^verbatim>\<open>KeyError\<close> on a key that was not read.
\<close>

definition gather_documents ::
  "store_path \<Rightarrow> string option \<Rightarrow> int option \<Rightarrow> error + unit" where
  "gather_documents store_path node_type zarr_format =
     bind (build_paths node_type zarr_format) (\<lambda>paths.
       let results = map store_path paths;
           items = map_of (zip paths results)
       in
         if zarr_format = Some 3 then
           (case items ZARR_JSON of
              None \<Rightarrow> Inl KeyError
            | Some None \<Rightarrow> Inl Exception_todo
            | Some (Some doc) \<Rightarrow> Inr ())
         else if node_type = Some ''array'' \<and> zarr_format = Some 2 then
           (let paths = paths @ [ZARRAY_JSON, ZATTRS_JSON] in Inr ())
         else if node_type = Some ''array'' \<and> zarr_format = None then
           (let paths = paths @ [ZARR_JSON, ZATTRS_JSON, ZARRAY_JSON] in Inr ())
         else if node_type = Some ''group'' \<and> zarr_format = Some 2 then
           (let paths = paths @ [ZGROUP_JSON, ZATTRS_JSON] in Inr ())
         else if node_type = Some ''group'' \<and> zarr_format = None then
           (let paths = paths @ [ZGROUP_JSON, ZATTRS_JSON, ZARR_JSON] in Inr ())
         else if node_type = None \<and> zarr_format = Some 2 then
           (let paths = paths @ [ZARRAY_JSON, ZATTRS_JSON, ZGROUP_JSON] in Inr ())
         else if node_type = None \<and> zarr_format = None then
           (let paths = paths @ [ZARRAY_JSON, ZATTRS_JSON, ZGROUP_JSON, ZARR_JSON] in Inr ())
         else Inl ValueError)"

text \<open>
  A store prefix that holds a legacy array document and a legacy group document and
  nothing else.
\<close>

definition array_and_group_store :: store_path where
  "array_and_group_store =
     (\<lambda>key. if key = ZARRAY_JSON then Some ''{\"zarr_format\": 2}''
            else if key = ZGROUP_JSON then Some ''{\"zarr_format\": 2}''
            else None)"

section \<open>Python values\<close>

text \<open>
  The values the modelled functions receive and return. JSON documents are the values
  built from \<open>PNone\<close>, \<open>PBool\<close>, \<open>PInt\<close>, \<open>PStr\<close>, \<open>PList\<close> and \<open>PDict\<close>
  (floating-point numbers are left out). A dictionary has string keys and keeps its
  insertion order. \<open>PObj c fields\<close> is an instance of the dataclass \<open>c\<close> with its
  instance attributes in field order; \<open>PEnum c m v\<close> is the member \<open>m\<close> of the enum \<open>c\<close>
  with value \<open>v\<close>. A set is listed in its iteration order.
\<close>

datatype pyval =
    PNone
  | PBool bool
  | PInt int
  | PStr string
  | PList "pyval list"
  | PTuple "pyval list"
  | PSet "pyval list"
  | PDict "(string \<times> pyval) list"
  | PObj string "(string \<times> pyval) list"
  | PEnum string string pyval

text \<open>Instance attribute lookup \<^verbatim>\<open>obj.attr\<close> for a data attribute.\<close>

fun getattr :: "pyval \<Rightarrow> string \<Rightarrow> error + pyval" where
  "getattr (PObj c fields) attr =
     (case map_of fields attr of None \<Rightarrow> Inl AttributeError | Some v \<Rightarrow> Inr v)"
| "getattr v attr = Inl AttributeError"

text \<open>
  The \<^verbatim>\<open>__init__\<close> that \<^verbatim>\<open>@dataclass\<close> generates, called with keyword arguments: a
  keyword that names no field is a \<^verbatim>\<open>TypeError\<close>, a field takes its keyword's value or
  else its default, and a field with neither is a \<^verbatim>\<open>TypeError\<close>. Neither the values nor
  their types are checked.
\<close>

fun init_fields ::
  "(string \<times> pyval option) list \<Rightarrow> (string \<times> pyval) list \<Rightarrow> error + (string \<times> pyval) list" where
  "init_fields [] kwargs = Inr []"
| "init_fields ((f, dflt) # fields) kwargs =
     (case (case map_of kwargs f of Some v \<Rightarrow> Some v | None \<Rightarrow> dflt) of
        None \<Rightarrow> Inl TypeError
      | Some v \<Rightarrow> bind (init_fields fields kwargs) (\<lambda>rest. Inr ((f, v) # rest)))"

definition dataclass_init ::
  "string \<Rightarrow> (string \<times> pyval option) list \<Rightarrow> (string \<times> pyval) list \<Rightarrow> error + pyval" where
  "dataclass_init c fields kwargs =
     (if \<not> list_all (\<lambda>(k, v). k \<in> set (map fst fields)) kwargs then Inl TypeError
      else bind (init_fields fields kwargs) (\<lambda>attrs. Inr (PObj c attrs)))"

subsection \<open>Strings and integers\<close>

text \<open>\<^verbatim>\<open>sep.join(parts)\<close> for strings.\<close>

fun str_join :: "string \<Rightarrow> string list \<Rightarrow> string" where
  "str_join sep [] = []"
| "str_join sep [x] = x"
| "str_join sep (x # y # ys) = x @ sep @ str_join sep (y # ys)"

text \<open>
  \<^verbatim>\<open>s.split(sep)\<close> for a string separator: an empty separator is a \<^verbatim>\<open>ValueError\<close>;
  otherwise the string is cut at each occurrence of the separator, scanning from the left.
\<close>

function split_from :: "string \<Rightarrow> string \<Rightarrow> string \<Rightarrow> string list" where
  "split_from sep cur [] = [cur]"
| "split_from sep cur (c # cs) =
     (if sep \<noteq> [] \<and> take (length sep) (c # cs) = sep
      then cur # split_from sep [] (drop (length sep) (c # cs))
      else split_from sep (cur @ [c]) cs)"
  by pat_completeness auto
termination
  by (relation "measure (\<lambda>(sep, cur, s). length s)") auto

definition str_split :: "string \<Rightarrow> string \<Rightarrow> error + string list" where
  "str_split s sep = (if sep = [] then Inl ValueError else Inr (split_from sep [] s))"

text \<open>\<^verbatim>\<open>str(i)\<close> for an integer: decimal digits, with a minus sign below zero.\<close>

definition digit_char :: "nat \<Rightarrow> char" where
  "digit_char d = char_of (48 + d)"

fun str_nat :: "nat \<Rightarrow> string" where
  "str_nat n = (if n < 10 then [digit_char n] else str_nat (n div 10) @ [digit_char (n mod 10)])"

declare str_nat.simps [simp del]

definition str_int :: "int \<Rightarrow> string" where
  "str_int i = (if i < 0 then CHR ''-'' # str_nat (nat (- i)) else str_nat (nat i))"

text \<open>
  \<^verbatim>\<open>int(s)\<close> for an ASCII string: whitespace around the number is dropped, a sign may
  come first, then decimal digits, where single underscores may stand between digits.
  Anything else, the empty string included, is a \<^verbatim>\<open>ValueError\<close>.
\<close>

definition digit_of :: "char \<Rightarrow> nat option" where
  "digit_of c = (let n = (of_char c :: nat) in if 48 \<le> n \<and> n \<le> 57 then Some (n - 48) else None)"

definition is_space :: "char \<Rightarrow> bool" where
  "is_space c = (let n = (of_char c :: nat) in (9 \<le> n \<and> n \<le> 13) \<or> (28 \<le> n \<and> n \<le> 32))"

fun parse_digits :: "nat \<Rightarrow> string \<Rightarrow> nat option" where
  "parse_digits acc [] = None"
| "parse_digits acc [c] = (case digit_of c of None \<Rightarrow> None | Some d \<Rightarrow> Some (10 * acc + d))"
| "parse_digits acc (c # c' # cs) =
     (case digit_of c of
        Some d \<Rightarrow>
          if c' = CHR ''_'' then
            (case cs of [] \<Rightarrow> None | _ \<Rightarrow> parse_digits (10 * acc + d) cs)
          else parse_digits (10 * acc + d) (c' # cs)
      | None \<Rightarrow> None)"

definition int_of_str :: "string \<Rightarrow> error + int" where
  "int_of_str s =
     (let t = rev (dropWhile is_space (rev (dropWhile is_space s)));
          (neg, ds) = (case t of
                         c # cs \<Rightarrow> if c = CHR ''-'' then (True, cs)
                                   else if c = CHR ''+'' then (False, cs) else (False, t)
                       | [] \<Rightarrow> (False, t))
      in case parse_digits 0 ds of
           None \<Rightarrow> Inl ValueError
         | Some n \<Rightarrow> Inr (if neg then - int n else int n))"

text \<open>\<^verbatim>\<open>tuple(map(f, xs))\<close> for an \<open>f\<close> that can raise: the first exception wins.\<close>

fun map_raise :: "('a \<Rightarrow> error + 'b) \<Rightarrow> 'a list \<Rightarrow> error + 'b list" where
  "map_raise f [] = Inr []"
| "map_raise f (x # xs) = bind (f x) (\<lambda>y. bind (map_raise f xs) (\<lambda>ys. Inr (y # ys)))"

lemma map_raise_cong [fundef_cong]:
  "xs = ys \<Longrightarrow> (\<And>x. x \<in> set ys \<Longrightarrow> f x = g x) \<Longrightarrow> map_raise f xs = map_raise g ys"
  by (induction ys arbitrary: xs) auto

section \<open>Chunk key encodings (\<^verbatim>\<open>zarr/core/chunk_key_encodings.py\<close>)\<close>

text \<open>\<^verbatim>\<open>parse_separator\<close>: the membership test compares with \<^verbatim>\<open>==\<close>.\<close>

definition parse_separator :: "pyval \<Rightarrow> error + pyval" where
  "parse_separator data =
     (if \<not> (data = PStr ''.'' \<or> data = PStr ''/'') then Inl ValueError else Inr data)"

text \<open>
  \<^verbatim>\<open>ChunkKeyEncodingConfiguration\<close>: a plain dataclass with the one field \<^verbatim>\<open>separator\<close>,
  default \<^verbatim>\<open>"."\<close>, and no \<^verbatim>\<open>__post_init__\<close>.
\<close>

definition ChunkKeyEncodingConfiguration :: "(string \<times> pyval) list \<Rightarrow> error + pyval" where
  "ChunkKeyEncodingConfiguration kwargs =
     dataclass_init ''ChunkKeyEncodingConfiguration'' [(''separator'', Some (PStr ''.''))] kwargs"

text \<open>The value of \<^verbatim>\<open>field(default_factory=ChunkKeyEncodingConfiguration)\<close>.\<close>

definition default_configuration :: pyval where
  "default_configuration = PObj ''ChunkKeyEncodingConfiguration'' [(''separator'', PStr ''.'')]"

text \<open>
  \<^verbatim>\<open>ChunkKeyEncoding.__post_init__\<close> is the stub \<^verbatim>\<open>...\<close>: it checks nothing (the call of
  \<^verbatim>\<open>parse_separator\<close> is commented out in the source).
\<close>

definition ChunkKeyEncoding_post_init :: "pyval \<Rightarrow> error + unit" where
  "ChunkKeyEncoding_post_init self = Inr ()"

text \<open>
  \<^verbatim>\<open>DefaultChunkKeyEncoding\<close>: the fields are \<^verbatim>\<open>name\<close> (default \<^verbatim>\<open>"default"\<close>) and the
  inherited \<^verbatim>\<open>configuration\<close>; \<^verbatim>\<open>__post_init__\<close> raises \<^verbatim>\<open>TypeError\<close> for any other name
  and then calls the base class.
\<close>

definition DefaultChunkKeyEncoding :: "(string \<times> pyval) list \<Rightarrow> error + pyval" where
  "DefaultChunkKeyEncoding kwargs =
     bind (dataclass_init ''DefaultChunkKeyEncoding''
             [(''name'', Some (PStr ''default'')), (''configuration'', Some default_configuration)]
             kwargs) (\<lambda>self.
     bind (getattr self ''name'') (\<lambda>n.
       if n \<noteq> PStr ''default'' then Inl TypeError
       else bind (ChunkKeyEncoding_post_init self) (\<lambda>u. Inr self)))"

text \<open>\<^verbatim>\<open>V2ChunkKeyEncoding\<close>: the same fields, name default \<^verbatim>\<open>"v2"\<close>, the inherited stub.\<close>

definition V2ChunkKeyEncoding :: "(string \<times> pyval) list \<Rightarrow> error + pyval" where
  "V2ChunkKeyEncoding kwargs =
     bind (dataclass_init ''V2ChunkKeyEncoding''
             [(''name'', Some (PStr ''v2'')), (''configuration'', Some default_configuration)]
             kwargs) (\<lambda>self.
     bind (ChunkKeyEncoding_post_init self) (\<lambda>u. Inr self))"

text \<open>\<^verbatim>\<open>isinstance(data, ChunkKeyEncoding)\<close>: the class itself or one of its two subclasses.\<close>

fun is_ChunkKeyEncoding :: "pyval \<Rightarrow> bool" where
  "is_ChunkKeyEncoding (PObj c fields) =
     (c = ''ChunkKeyEncoding'' \<or> c = ''DefaultChunkKeyEncoding'' \<or> c = ''V2ChunkKeyEncoding'')"
| "is_ChunkKeyEncoding v = False"

text \<open>\<^verbatim>\<open>Cls(**config_parsed)\<close>: the argument after \<^verbatim>\<open>**\<close> must be a mapping.\<close>

fun call_with_kwargs ::
  "((string \<times> pyval) list \<Rightarrow> error + pyval) \<Rightarrow> pyval \<Rightarrow> error + pyval" where
  "call_with_kwargs cls (PDict kwargs) = cls kwargs"
| "call_with_kwargs cls v = Inl TypeError"

text \<open>
  \<^verbatim>\<open>ChunkKeyEncoding.from_dict\<close>. The helper \<^verbatim>\<open>parse_named_configuration\<close> of
  \<^verbatim>\<open>zarr.core.common\<close> is not among the sources, so it is the parameter \<open>pnc\<close>: called
  with the data and \<^verbatim>\<open>require_configuration\<close>, it returns the pair of the parsed name
  and the parsed configuration (\<^verbatim>\<open>None\<close> when absent), or raises.
\<close>

definition from_dict_ChunkKeyEncoding ::
  "(pyval \<Rightarrow> bool \<Rightarrow> error + pyval \<times> pyval) \<Rightarrow> pyval \<Rightarrow> error + pyval" where
  "from_dict_ChunkKeyEncoding pnc data =
     (if is_ChunkKeyEncoding data then Inr data
      else bind (pnc data False) (\<lambda>(name_parsed, config_parsed).
        if name_parsed = PStr ''default'' then
          (let config_parsed =
                 (if config_parsed = PNone then PDict [(''separator'', PStr ''/'')]
                  else config_parsed)
           in call_with_kwargs DefaultChunkKeyEncoding config_parsed)
        else if name_parsed = PStr ''v2'' then
          (let config_parsed =
                 (if config_parsed = PNone then PDict [(''separator'', PStr ''.'')]
                  else config_parsed)
           in call_with_kwargs V2ChunkKeyEncoding config_parsed)
        else Inl ValueError))"

text \<open>
  Modelled from the spec: \<^verbatim>\<open>parse_named_configuration\<close> is missing from the sources. The
  spec says that a chunk key encoding is decoded from a mapping with the discriminator
  \<^verbatim>\<open>name\<close> and a \<^verbatim>\<open>configuration\<close> mapping that may be absent. This reading is used for
  concrete inputs only.
\<close>

fun parse_named_configuration :: "pyval \<Rightarrow> bool \<Rightarrow> error + pyval \<times> pyval" where
  "parse_named_configuration (PDict items) require_configuration =
     (case map_of items ''name'' of
        None \<Rightarrow> Inl ValueError
      | Some n \<Rightarrow>
          (case map_of items ''configuration'' of
             Some c \<Rightarrow> Inr (n, c)
           | None \<Rightarrow> if require_configuration then Inl ValueError else Inr (n, PNone)))"
| "parse_named_configuration v require_configuration = Inl TypeError"

text \<open>
  The two methods of \<^verbatim>\<open>DefaultChunkKeyEncoding\<close>. Both read \<^verbatim>\<open>self.separator\<close>; what they
  compute from its value is given by the functions \<open>default_decode_with\<close> and
  \<open>default_encode_with\<close>, which take the separator as an argument. Coordinates are a
  tuple of integers, a chunk key is a string.
\<close>

definition default_decode_with :: "string \<Rightarrow> string \<Rightarrow> error + int list" where
  "default_decode_with sep chunk_key =
     bind (str_split (drop 1 chunk_key) sep) (map_raise int_of_str)"

definition default_encode_with :: "string \<Rightarrow> int list \<Rightarrow> string" where
  "default_encode_with sep chunk_coords = str_join sep (''c'' # map str_int chunk_coords)"

text \<open>A separator is used as a string; any other value is a \<^verbatim>\<open>TypeError\<close> here.\<close>

fun as_str :: "pyval \<Rightarrow> error + string" where
  "as_str (PStr s) = Inr s"
| "as_str v = Inl TypeError"

definition DefaultChunkKeyEncoding_decode_chunk_key :: "pyval \<Rightarrow> string \<Rightarrow> error + int list" where
  "DefaultChunkKeyEncoding_decode_chunk_key self chunk_key =
     (if chunk_key = ''c'' then Inr []
      else bind (getattr self ''separator'') (\<lambda>sep.
           bind (as_str sep) (\<lambda>sep. default_decode_with sep chunk_key)))"

definition DefaultChunkKeyEncoding_encode_chunk_key :: "pyval \<Rightarrow> int list \<Rightarrow> error + string" where
  "DefaultChunkKeyEncoding_encode_chunk_key self chunk_coords =
     bind (getattr self ''separator'') (\<lambda>sep.
     bind (as_str sep) (\<lambda>sep. Inr (default_encode_with sep chunk_coords)))"

text \<open>The two methods of \<^verbatim>\<open>V2ChunkKeyEncoding\<close>, in the same way.\<close>

definition v2_decode_with :: "string \<Rightarrow> string \<Rightarrow> error + int list" where
  "v2_decode_with sep chunk_key = bind (str_split chunk_key sep) (map_raise int_of_str)"

definition v2_encode_with :: "string \<Rightarrow> int list \<Rightarrow> string" where
  "v2_encode_with sep chunk_coords =
     (let chunk_identifier = str_join sep (map str_int chunk_coords)
      in if chunk_identifier = [] then ''0'' else chunk_identifier)"

definition V2ChunkKeyEncoding_decode_chunk_key :: "pyval \<Rightarrow> string \<Rightarrow> error + int list" where
  "V2ChunkKeyEncoding_decode_chunk_key self chunk_key =
     bind (getattr self ''separator'') (\<lambda>sep.
     bind (as_str sep) (\<lambda>sep. v2_decode_with sep chunk_key))"

definition V2ChunkKeyEncoding_encode_chunk_key :: "pyval \<Rightarrow> int list \<Rightarrow> error + string" where
  "V2ChunkKeyEncoding_encode_chunk_key self chunk_coords =
     bind (getattr self ''separator'') (\<lambda>sep.
     bind (as_str sep) (\<lambda>sep. Inr (v2_encode_with sep chunk_coords)))"

text \<open>
  The instances used below: \<^verbatim>\<open>DefaultChunkKeyEncoding(configuration=
  ChunkKeyEncodingConfiguration(separator="/"))\<close> and its \<^verbatim>\<open>v2\<close> counterpart with \<^verbatim>\<open>"."\<close>.
\<close>

definition default_slash :: pyval where
  "default_slash =
     PObj ''DefaultChunkKeyEncoding''
       [(''name'', PStr ''default''),
        (''configuration'', PObj ''ChunkKeyEncodingConfiguration'' [(''separator'', PStr ''/'')])]"

definition v2_dot :: pyval where
  "v2_dot =
     PObj ''V2ChunkKeyEncoding''
       [(''name'', PStr ''v2''),
        (''configuration'', PObj ''ChunkKeyEncodingConfiguration'' [(''separator'', PStr ''.'')])]"

section \<open>Properties of the resolver\<close>

lemma key_names_distinct:
  "distinct [ZARRAY_JSON, ZATTRS_JSON, ZGROUP_JSON, ZARR_JSON]"
  by (simp add: ZARR_JSON_def ZARRAY_JSON_def ZGROUP_JSON_def ZATTRS_JSON_def)

text \<open>
  C5. The key list is a function of the descriptor \<open>(node_type, zarr_format)\<close> alone (the
  model has no other argument and no state). Every key list that is returned is free of
  duplicates. With both parts of the descriptor unknown the keys are exactly the four
  names \<^verbatim>\<open>zarr.json\<close>, \<^verbatim>\<open>.zattrs\<close>, \<^verbatim>\<open>.zgroup\<close>, \<^verbatim>\<open>.zarray\<close>; for an array of format 3 the only
  key is \<^verbatim>\<open>zarr.json\<close>.
\<close>

theorem build_paths_key_sets:
  "(\<forall>paths. build_paths node_type zarr_format = Inr paths \<longrightarrow> distinct paths)
   \<and> (\<exists>paths. build_paths None None = Inr paths
          \<and> set paths = {''zarr.json'', ''.zattrs'', ''.zgroup'', ''.zarray''}
          \<and> card (set paths) = 4)
   \<and> (\<exists>paths. build_paths (Some ''array'') (Some 3) = Inr paths
          \<and> set paths = {''zarr.json''})"
proof (intro conjI allI impI)
  fix paths
  assume "build_paths node_type zarr_format = Inr paths"
  then show "distinct paths"
    using key_names_distinct by (auto simp: build_paths_def split: if_splits)
next
  show "\<exists>paths. build_paths None None = Inr paths
          \<and> set paths = {''zarr.json'', ''.zattrs'', ''.zgroup'', ''.zarray''}
          \<and> card (set paths) = 4"
    by (auto simp: build_paths_def ZARR_JSON_def ZARRAY_JSON_def ZGROUP_JSON_def
        ZATTRS_JSON_def)
next
  show "\<exists>paths. build_paths (Some ''array'') (Some 3) = Inr paths
          \<and> set paths = {''zarr.json''}"
    by (simp add: build_paths_def ZARR_JSON_def)
qed

theorem build_paths_key_sets_witness:
  "build_paths (Some ''group'') None = Inr [''.zgroup'', ''.zattrs'', ''zarr.json'']
   \<and> distinct [''.zgroup'', ''.zattrs'', ''zarr.json'']"
proof -
  have run: "build_paths (Some ''group'') None = Inr [''.zgroup'', ''.zattrs'', ''zarr.json'']"
    by (simp add: build_paths_def ZARR_JSON_def ZGROUP_JSON_def ZATTRS_JSON_def)
  from build_paths_key_sets [of "Some ''group''" None] run
  have "distinct [''.zgroup'', ''.zattrs'', ''zarr.json'']" by blast
  with run show ?thesis by simp
qed

text \<open>
  C4. With \<^verbatim>\<open>.zarray\<close> and \<^verbatim>\<open>.zgroup\<close> both present, no \<^verbatim>\<open>zarr.json\<close>, and neither the node
  type nor the format known, \<^verbatim>\<open>_gather_documents\<close> reads the four keys and returns
  \<^verbatim>\<open>None\<close>: no exception is raised, and \<^verbatim>\<open>ContainsArrayAndGroupError\<close> in particular is not.
\<close>

theorem gather_documents_array_and_group:
  "array_and_group_store ''.zarray'' \<noteq> None
   \<and> array_and_group_store ''.zgroup'' \<noteq> None
   \<and> array_and_group_store ''zarr.json'' = None
   \<and> gather_documents array_and_group_store None None = Inr ()
   \<and> gather_documents array_and_group_store None None \<noteq> Inl ContainsArrayAndGroupError"
  by (simp add: gather_documents_def build_paths_def array_and_group_store_def
      ZARR_JSON_def ZARRAY_JSON_def ZGROUP_JSON_def ZATTRS_JSON_def)

end
